theory Spec2Isabelle
  imports Complex_Main "HOL-Library.Multiset" "HOL-Library.List_Lexorder" "HOL-Library.Char_ord"
begin

section \<open>Python values\<close>

text \<open>
  A value produced by \<^verbatim>\<open>json.load\<close> or \<^verbatim>\<open>response.json()\<close>. \<open>JNull\<close> is Python's
  \<^verbatim>\<open>None\<close>, which is also what the uploader returns for a failure. A dict is an
  association list, looked up with \<open>map_of\<close>; the keys of a parsed dict are distinct.
  A float is represented by its exact value; only whether it is zero matters below.
\<close>

datatype json =
    JNull
  | JBool bool
  | JInt int
  | JFloat rat
  | JStr string
  | JArr "json list"
  | JObj "(string \<times> json) list"

text \<open>The exceptions the program can meet; all of them derive from \<^verbatim>\<open>Exception\<close>.\<close>

datatype exn =
    RequestException string
  | JSONDecodeError
  | OSError
  | AttributeError
  | TypeError
  | KeyError
  | ZeroDivisionError
  | ValueError

text \<open>Python truthiness, as used by \<^verbatim>\<open>if result:\<close>, \<^verbatim>\<open>params or {}\<close> and \<^verbatim>\<open>all([...])\<close>.\<close>

fun truthy :: "json \<Rightarrow> bool" where
  "truthy JNull = False"
| "truthy (JBool b) = b"
| "truthy (JInt i) = (i \<noteq> 0)"
| "truthy (JFloat r) = (r \<noteq> 0)"
| "truthy (JStr s) = (s \<noteq> [])"
| "truthy (JArr xs) = (xs \<noteq> [])"
| "truthy (JObj kvs) = (kvs \<noteq> [])"

text \<open>\<^verbatim>\<open>d.get(k, default)\<close>: only a dict has the method.\<close>

fun dict_get :: "json \<Rightarrow> string \<Rightarrow> json \<Rightarrow> exn + json" where
  "dict_get (JObj kvs) k d = Inr (case map_of kvs k of None \<Rightarrow> d | Some v \<Rightarrow> v)"
| "dict_get _ k d = Inl AttributeError"

text \<open>\<^verbatim>\<open>d[k]\<close> with a string key.\<close>

fun getitem :: "json \<Rightarrow> string \<Rightarrow> exn + json" where
  "getitem (JObj kvs) k = (case map_of kvs k of None \<Rightarrow> Inl KeyError | Some v \<Rightarrow> Inr v)"
| "getitem _ k = Inl TypeError"

text \<open>
  \<^verbatim>\<open>for entry in v\<close>: a list yields its elements, a dict its keys, a string its
  characters; nothing else is iterable.
\<close>

fun py_iter :: "json \<Rightarrow> exn + json list" where
  "py_iter (JArr xs) = Inr xs"
| "py_iter (JObj kvs) = Inr (map (\<lambda>kv. JStr (fst kv)) kvs)"
| "py_iter (JStr s) = Inr (map (\<lambda>c. JStr [c]) s)"
| "py_iter _ = Inl TypeError"

section \<open>The world: HTTP session, console, file system\<close>

record request =
  http_method :: string
  url :: string
  headers :: "(string \<times> string) list"
  params :: "json option"
  payload :: "json option"
  timeout :: int

text \<open>
  A response as the program reads it: the status code, the body text, and what
  \<^verbatim>\<open>response.json()\<close> gives (\<open>None\<close> when it raises).
\<close>

record response =
  status_code :: int
  body_text :: string
  decoded :: "json option"

text \<open>
  The session (with its retry adapter) answers a request with a response or raises. The
  answer may depend on everything sent before.
\<close>

type_synonym server = "request list \<Rightarrow> request \<Rightarrow> exn + response"

text \<open>One \<^verbatim>\<open>print\<close> call: the pieces of its f-string.\<close>

datatype frag = Lit string | IntV int | ExnV exn | JsonV json | RatV rat

record world =
  sent :: "request list"
  console :: "frag list list"

definition print :: "frag list \<Rightarrow> world \<Rightarrow> world" where
  "print line w = w\<lparr>console := console w @ [line]\<rparr>"

definition session_request :: "server \<Rightarrow> request \<Rightarrow> world \<Rightarrow> (exn + response) \<times> world" where
  "session_request srv req w = (srv (sent w) req, w\<lparr>sent := sent w @ [req]\<rparr>)"

text \<open>\<^verbatim>\<open>try: body  except Exception as e: handler\<close>\<close>

definition try_except ::
  "(world \<Rightarrow> (exn + 'a) \<times> world) \<Rightarrow> (exn \<Rightarrow> world \<Rightarrow> (exn + 'a) \<times> world) \<Rightarrow>
   world \<Rightarrow> (exn + 'a) \<times> world" where
  "try_except body handler w =
     (case body w of
        (Inl e, w1) \<Rightarrow> handler e w1
      | (Inr v, w1) \<Rightarrow> (Inr v, w1))"

text \<open>
  What \<^verbatim>\<open>open\<close> followed by \<^verbatim>\<open>json.load\<close> finds at a path: the file cannot be opened, its
  content is not valid JSON, or it holds a document.
\<close>

datatype bundle_file = Unreadable | Malformed | Document json

fun json_load :: "bundle_file \<Rightarrow> exn + json" where
  "json_load Unreadable = Inl OSError"
| "json_load Malformed = Inl JSONDecodeError"
| "json_load (Document j) = Inr j"

section \<open>FHIRUploader\<close>

record uploader =
  base_url :: string
  client_id :: string
  client_secret :: string
  batch_size :: int
  delay_seconds :: rat

definition FHIRUploader :: "string \<Rightarrow> string \<Rightarrow> string \<Rightarrow> int \<Rightarrow> rat \<Rightarrow> uploader" where
  "FHIRUploader hostname cid secret bs delay =
     \<lparr>base_url = ''https://'' @ hostname @ ''/fhir/R4'',
      client_id = cid,
      client_secret = secret,
      batch_size = bs,
      delay_seconds = delay\<rparr>"

definition get_headers :: "uploader \<Rightarrow> (string \<times> string) list" where
  "get_headers u =
     [(''Content-Type'', ''application/fhir+json''),
      (''Accept'', ''application/fhir+json''),
      (''CF-Access-Client-Id'', client_id u),
      (''CF-Access-Client-Secret'', client_secret u)]"

subsection \<open>upload_bundle\<close>

definition post_request :: "uploader \<Rightarrow> json \<Rightarrow> request" where
  "post_request u bundle =
     \<lparr>http_method = ''POST'', url = base_url u, headers = get_headers u,
      params = None, payload = Some bundle, timeout = 30\<rparr>"

definition upload_bundle_body :: "server \<Rightarrow> uploader \<Rightarrow> json \<Rightarrow> world \<Rightarrow> (exn + json) \<times> world" where
  "upload_bundle_body srv u bundle w =
     (case session_request srv (post_request u bundle) w of
        (Inl e, w1) \<Rightarrow> (Inl e, w1)
      | (Inr resp, w1) \<Rightarrow>
          if status_code resp \<in> {200, 201} then
            (case decoded resp of
               None \<Rightarrow> (Inl JSONDecodeError, w1)
             | Some j \<Rightarrow> (Inr j, w1))
          else
            (Inr JNull,
             print [Lit ''  Response: '', Lit (take 500 (body_text resp))]
               (print [Lit ''  Upload failed: '', IntV (status_code resp)] w1)))"

definition upload_bundle :: "server \<Rightarrow> uploader \<Rightarrow> json \<Rightarrow> world \<Rightarrow> (exn + json) \<times> world" where
  "upload_bundle srv u bundle =
     try_except (upload_bundle_body srv u bundle)
       (\<lambda>e w. (Inr JNull, print [Lit ''  Upload error: '', ExnV e] w))"

subsection \<open>upload_bundle_file\<close>

definition upload_bundle_file_body ::
  "server \<Rightarrow> uploader \<Rightarrow> string \<times> bundle_file \<Rightarrow> world \<Rightarrow> (exn + bool) \<times> world" where
  "upload_bundle_file_body srv u file_path w =
     (case json_load (snd file_path) of
        Inl e \<Rightarrow> (Inl e, w)
      | Inr bundle \<Rightarrow>
          (case upload_bundle srv u bundle w of
             (Inl e, w1) \<Rightarrow> (Inl e, w1)
           | (Inr result, w1) \<Rightarrow> if truthy result then (Inr True, w1) else (Inr False, w1)))"

definition upload_bundle_file ::
  "server \<Rightarrow> uploader \<Rightarrow> string \<times> bundle_file \<Rightarrow> world \<Rightarrow> (exn + bool) \<times> world" where
  "upload_bundle_file srv u file_path =
     try_except (upload_bundle_file_body srv u file_path)
       (\<lambda>e w. (Inr False,
          print [Lit ''  Error processing file '', Lit (fst file_path), Lit '': '', ExnV e] w))"

subsection \<open>upload_directory\<close>

record stats =
  total_stat :: int
  successful :: int
  failed :: int
  patients :: int
  observations :: int
  medications :: int

text \<open>The check mark and the cross the program prints, as UTF-8 bytes.\<close>

definition check_mark :: string where
  "check_mark = [CHR 0xE2, CHR 0x9C, CHR 0x93]"

definition cross_mark :: string where
  "cross_mark = [CHR 0xE2, CHR 0x9C, CHR 0x97]"

text \<open>
  A file system maps the path of a directory to its listing: the names in it, each with
  what reading it gives. \<^verbatim>\<open>directory.glob("*.json")\<close> keeps the names that end in
  \<^verbatim>\<open>.json\<close>; a path that is no directory has no match.
\<close>

type_synonym listing = "(string \<times> bundle_file) list"

type_synonym filesystem = "string \<Rightarrow> listing option"

definition matches_json :: "string \<Rightarrow> bool" where
  "matches_json name = (drop (length name - 5) name = ''.json'')"

definition glob_json :: "filesystem \<Rightarrow> string \<Rightarrow> listing" where
  "glob_json fs directory =
     (case fs directory of
        None \<Rightarrow> []
      | Some entries \<Rightarrow> filter (\<lambda>p. matches_json (fst p)) entries)"

text \<open>\<^verbatim>\<open>sorted(list(directory.glob("*.json")))\<close>: paths of one directory compare by name.\<close>

definition bundle_files :: "filesystem \<Rightarrow> string \<Rightarrow> listing" where
  "bundle_files fs directory = sort_key fst (glob_json fs directory)"

text \<open>The \<^verbatim>\<open>if\<close>/\<^verbatim>\<open>elif\<close> chain on \<^verbatim>\<open>resource_type\<close>.\<close>

definition count_type :: "json \<Rightarrow> stats \<Rightarrow> stats" where
  "count_type resource_type st =
     (if resource_type = JStr ''Patient'' then st\<lparr>patients := patients st + 1\<rparr>
      else if resource_type = JStr ''Observation'' then st\<lparr>observations := observations st + 1\<rparr>
      else if resource_type = JStr ''MedicationStatement'' then st\<lparr>medications := medications st + 1\<rparr>
      else st)"

text \<open>\<^verbatim>\<open>entry['resource'].get('resourceType')\<close>\<close>

definition resource_type_of :: "json \<Rightarrow> exn + json" where
  "resource_type_of entry =
     (case getitem entry ''resource'' of
        Inl e \<Rightarrow> Inl e
      | Inr resource \<Rightarrow> dict_get resource ''resourceType'' JNull)"

text \<open>
  The counting loop over the entries. The statistics are updated in place, so what was
  counted before an exception stays counted.
\<close>

fun count_entries :: "json list \<Rightarrow> stats \<Rightarrow> (exn + unit) \<times> stats" where
  "count_entries [] st = (Inr (), st)"
| "count_entries (entry # rest) st =
     (case resource_type_of entry of
        Inl e \<Rightarrow> (Inl e, st)
      | Inr resource_type \<Rightarrow> count_entries rest (count_type resource_type st))"

definition count_resources_body :: "bundle_file \<Rightarrow> stats \<Rightarrow> (exn + unit) \<times> stats" where
  "count_resources_body f st =
     (case json_load f of
        Inl e \<Rightarrow> (Inl e, st)
      | Inr bundle \<Rightarrow>
          (case dict_get bundle ''entry'' (JArr []) of
             Inl e \<Rightarrow> (Inl e, st)
           | Inr v \<Rightarrow>
               (case py_iter v of
                  Inl e \<Rightarrow> (Inl e, st)
                | Inr entries \<Rightarrow> count_entries entries st)))"

text \<open>The bare \<^verbatim>\<open>except: pass\<close> around the counting.\<close>

definition count_resources :: "bundle_file \<Rightarrow> stats \<Rightarrow> stats" where
  "count_resources f st = snd (count_resources_body f st)"

text \<open>
  The \<^verbatim>\<open>for idx, file_path in enumerate(bundle_files, 1)\<close> loop. \<^verbatim>\<open>idx % self.batch_size\<close>
  raises for a batch size of zero and \<^verbatim>\<open>time.sleep\<close> raises for a negative delay;
  neither is caught.
\<close>

fun upload_loop ::
  "server \<Rightarrow> uploader \<Rightarrow> int \<Rightarrow> int \<Rightarrow> listing \<Rightarrow> stats \<Rightarrow> world \<Rightarrow> (exn + stats) \<times> world" where
  "upload_loop srv u total_files idx [] st w = (Inr st, w)"
| "upload_loop srv u total_files idx (file_path # rest) st w =
     (let w1 = print [Lit ''['', IntV idx, Lit ''/'', IntV total_files, Lit ''] Uploading '',
                      Lit (fst file_path), Lit ''...''] w;
          st1 = count_resources (snd file_path) st
      in case upload_bundle_file srv u file_path w1 of
           (Inl e, w2) \<Rightarrow> (Inl e, w2)
         | (Inr success, w2) \<Rightarrow>
             (let st2 = (if success then st1\<lparr>successful := successful st1 + 1\<rparr>
                         else st1\<lparr>failed := failed st1 + 1\<rparr>);
                  w3 = print [Lit (if success then check_mark else cross_mark)] w2
              in if batch_size u = 0 then (Inl ZeroDivisionError, w3)
                 else
                   (let w4 = (if idx mod batch_size u = 0
                              then print [Lit ''  Progress: '', IntV (successful st2),
                                          Lit '' successful, '', IntV (failed st2), Lit '' failed''] w3
                              else w3)
                    in if delay_seconds u < 0 then (Inl ValueError, w4)
                       else upload_loop srv u total_files (idx + 1) rest st2 w4)))"

definition rule_line :: string where
  "rule_line = replicate 70 CHR ''=''"

text \<open>The final summary; the percentage divides by \<^verbatim>\<open>stats['total']\<close>.\<close>

definition final_summary :: "stats \<Rightarrow> world \<Rightarrow> (exn + unit) \<times> world" where
  "final_summary st w =
     (let w1 = print [Lit (CHR 0x0A # rule_line)] w;
          w2 = print [Lit ''Upload Summary:''] w1;
          w3 = print [Lit ''  Total bundles: '', IntV (total_stat st)] w2
      in if total_stat st = 0 then (Inl ZeroDivisionError, w3)
         else
           (let w4 = print [Lit ''  Successful: '', IntV (successful st), Lit '' ('',
                            RatV (of_int (successful st) / of_int (total_stat st) * 100),
                            Lit ''%)''] w3;
                w5 = print [Lit ''  Failed: '', IntV (failed st)] w4;
                w6 = print [Lit (CHR 0x0A # ''Resources uploaded:'')] w5;
                w7 = print [Lit ''  Patients: '', IntV (patients st)] w6;
                w8 = print [Lit ''  Observations: '', IntV (observations st)] w7;
                w9 = print [Lit ''  Medications: '', IntV (medications st)] w8
            in (Inr (), w9)))"

definition upload_directory ::
  "server \<Rightarrow> filesystem \<Rightarrow> uploader \<Rightarrow> string \<Rightarrow> world \<Rightarrow> (exn + stats) \<times> world" where
  "upload_directory srv fs u directory w =
     (let files = bundle_files fs directory;
          total_files = int (length files);
          w1 = print [Lit (CHR 0x0A # ''Uploading ''), IntV total_files,
                      Lit '' bundles from '', Lit directory] w;
          w2 = print [Lit rule_line] w1;
          st = \<lparr>total_stat = total_files, successful = 0, failed = 0,
                patients = 0, observations = 0, medications = 0\<rparr>
      in case upload_loop srv u total_files 1 files st w2 of
           (Inl e, w3) \<Rightarrow> (Inl e, w3)
         | (Inr st', w3) \<Rightarrow>
             (case final_summary st' w3 of
                (Inl e, w4) \<Rightarrow> (Inl e, w4)
              | (Inr _, w4) \<Rightarrow> (Inr st', w4)))"

subsection \<open>test_connection and search_patients\<close>

definition metadata_request :: "uploader \<Rightarrow> request" where
  "metadata_request u =
     \<lparr>http_method = ''GET'', url = base_url u @ ''/metadata'', headers = get_headers u,
      params = None, payload = None, timeout = 10\<rparr>"

definition test_connection_body :: "server \<Rightarrow> uploader \<Rightarrow> world \<Rightarrow> (exn + bool) \<times> world" where
  "test_connection_body srv u w =
     (case session_request srv (metadata_request u) w of
        (Inl e, w1) \<Rightarrow> (Inl e, w1)
      | (Inr resp, w1) \<Rightarrow>
          if status_code resp = 200 then
            (let w2 = print [Lit (check_mark @ '' Successfully connected to FHIR server'')] w1
             in case decoded resp of
                  None \<Rightarrow> (Inl JSONDecodeError, w2)
                | Some metadata \<Rightarrow>
                    (case dict_get metadata ''software'' (JObj []) of
                       Inl e \<Rightarrow> (Inl e, w2)
                     | Inr software \<Rightarrow>
                         (case dict_get software ''name'' (JStr ''Unknown'') of
                            Inl e \<Rightarrow> (Inl e, w2)
                          | Inr name \<Rightarrow>
                              (let w3 = print [Lit ''  Server: '', JsonV name] w2
                               in case dict_get metadata ''fhirVersion'' (JStr ''Unknown'') of
                                    Inl e \<Rightarrow> (Inl e, w3)
                                  | Inr version \<Rightarrow>
                                      (Inr True, print [Lit ''  Version: '', JsonV version] w3)))))
          else
            (Inr False,
             print [Lit ''  Response: '', Lit (body_text resp)]
               (print [Lit (cross_mark @ '' Connection failed: ''), IntV (status_code resp)] w1)))"

definition test_connection :: "server \<Rightarrow> uploader \<Rightarrow> world \<Rightarrow> (exn + bool) \<times> world" where
  "test_connection srv u =
     try_except (test_connection_body srv u)
       (\<lambda>e w. (Inr False, print [Lit (cross_mark @ '' Connection error: ''), ExnV e] w))"

text \<open>\<^verbatim>\<open>params or {}\<close>\<close>

definition search_request :: "uploader \<Rightarrow> json \<Rightarrow> request" where
  "search_request u ps =
     \<lparr>http_method = ''GET'', url = base_url u @ ''/Patient'', headers = get_headers u,
      params = Some (if truthy ps then ps else JObj []), payload = None, timeout = 10\<rparr>"

definition search_patients_body :: "server \<Rightarrow> uploader \<Rightarrow> json \<Rightarrow> world \<Rightarrow> (exn + json) \<times> world" where
  "search_patients_body srv u ps w =
     (case session_request srv (search_request u ps) w of
        (Inl e, w1) \<Rightarrow> (Inl e, w1)
      | (Inr resp, w1) \<Rightarrow>
          if status_code resp = 200 then
            (case decoded resp of
               None \<Rightarrow> (Inl JSONDecodeError, w1)
             | Some j \<Rightarrow> (Inr j, w1))
          else (Inr JNull, print [Lit ''Search failed: '', IntV (status_code resp)] w1))"

definition search_patients :: "server \<Rightarrow> uploader \<Rightarrow> json \<Rightarrow> world \<Rightarrow> (exn + json) \<times> world" where
  "search_patients srv u ps =
     try_except (search_patients_body srv u ps)
       (\<lambda>e w. (Inr JNull, print [Lit ''Search error: '', ExnV e] w))"

section \<open>main\<close>

text \<open>
  \<open>env\<close> is the process environment once \<^verbatim>\<open>load_dotenv()\<close> has run; \<^verbatim>\<open>os.getenv\<close> gives
  \<open>None\<close> for a variable that is not set. \<^verbatim>\<open>all([...])\<close> takes the truth value of each
  result: \<open>None\<close> and the empty string are false.
\<close>

fun truthy_str :: "string option \<Rightarrow> bool" where
  "truthy_str None = False"
| "truthy_str (Some s) = (s \<noteq> [])"

definition missing_env_message :: "world \<Rightarrow> world" where
  "missing_env_message w =
     print [Lit ''HTTP_CLIENT_SECRET=your-client-secret'']
       (print [Lit ''HTTP_CLIENT_ID=your-client-id'']
         (print [Lit ''HTTP_HOSTNAME=your-fhir-server.com'']
           (print [Lit (CHR 0x0A # ''Create a .env file with:'')]
             (print [Lit ''Please set HTTP_HOSTNAME, HTTP_CLIENT_ID, and HTTP_CLIENT_SECRET'']
               (print [Lit ''Error: Missing environment variables''] w)))))"

definition cannot_connect_message :: "world \<Rightarrow> world" where
  "cannot_connect_message w =
     print [Lit ''3. Network connectivity'']
       (print [Lit ''2. Client ID and secret are valid'']
         (print [Lit ''1. Server hostname is correct'']
           (print [Lit (CHR 0x0A # ''Cannot connect to FHIR server. Please check:'')] w)))"

definition no_directory_message :: "string \<Rightarrow> world \<Rightarrow> world" where
  "no_directory_message input_dir w =
     print [Lit ''Run post_process_fhir.py first to generate processed bundles'']
       (print [Lit (CHR 0x0A # ''Error: Directory ''), Lit input_dir, Lit '' does not exist''] w)"

text \<open>The last step of \<^verbatim>\<open>main\<close>: the search and the report of its total.\<close>

definition verify_upload :: "server \<Rightarrow> uploader \<Rightarrow> world \<Rightarrow> (exn + unit) \<times> world" where
  "verify_upload srv u w =
     (case search_patients srv u (JObj [(''_count'', JStr ''10'')])
             (print [Lit (CHR 0x0A # ''Verifying upload...'')] w) of
        (Inl e, w1) \<Rightarrow> (Inl e, w1)
      | (Inr search_result, w1) \<Rightarrow>
          if truthy search_result then
            (case dict_get search_result ''total'' (JInt 0) of
               Inl e \<Rightarrow> (Inl e, w1)
             | Inr t \<Rightarrow>
                 (Inr (), print [Lit (check_mark @ '' Found ''), JsonV t, Lit '' patients on server''] w1))
          else (Inr (), w1))"

definition main :: "server \<Rightarrow> filesystem \<Rightarrow> (string \<rightharpoonup> string) \<Rightarrow> world \<Rightarrow> (exn + unit) \<times> world" where
  "main srv fs env w =
     (let hostname = env ''HTTP_HOSTNAME'';
          client_id = env ''HTTP_CLIENT_ID'';
          client_secret = env ''HTTP_CLIENT_SECRET'';
          processed_fhir_dir =
            (case env ''PROCESSED_FHIR_DIR'' of None \<Rightarrow> ''./processed_fhir'' | Some d \<Rightarrow> d)
      in if \<not> list_all truthy_str [hostname, client_id, client_secret]
         then (Inr (), missing_env_message w)
         else
           (let uploader = FHIRUploader (the hostname) (the client_id) (the client_secret) 10 (1 / 2)
            in case test_connection srv uploader (print [Lit ''Testing FHIR server connection...''] w) of
                 (Inl e, w1) \<Rightarrow> (Inl e, w1)
               | (Inr reachable, w1) \<Rightarrow>
                   if \<not> reachable then (Inr (), cannot_connect_message w1)
                   else
                     (let input_dir = processed_fhir_dir
                      in if fs input_dir = None then (Inr (), no_directory_message input_dir w1)
                         else
                           (case upload_directory srv fs uploader input_dir w1 of
                              (Inl e, w2) \<Rightarrow> (Inl e, w2)
                            | (Inr stats, w2) \<Rightarrow> verify_upload srv uploader w2))))"

section \<open>The order of processing, read off the console\<close>

text \<open>
  Each pass of the loop starts by printing \<^verbatim>\<open>[idx/total] Uploading name...\<close>; no other
  line the program prints has that shape. The names in these lines, in the order
  printed, are the files processed.
\<close>

definition uploading_name :: "frag list \<Rightarrow> string option" where
  "uploading_name line =
     (if length line = 7 \<and> line ! 0 = Lit ''['' \<and> line ! 4 = Lit ''] Uploading ''
      then (case line ! 5 of Lit name \<Rightarrow> Some name | _ \<Rightarrow> None)
      else None)"

definition processed :: "world \<Rightarrow> string list" where
  "processed w = List.map_filter uploading_name (console w)"

text \<open>
  The documents of the files that load, in the order of the files: what a run over the
  files hands to \<^verbatim>\<open>upload_bundle\<close>.
\<close>

definition loadable_documents :: "listing \<Rightarrow> json list" where
  "loadable_documents files =
     concat (map (\<lambda>p. case snd p of Document j \<Rightarrow> [j] | _ \<Rightarrow> []) files)"

section \<open>The specification's counts\<close>

text \<open>
  An entry whose resource has resource type \<open>t\<close>, in the specification's words: the
  entry wraps a \<^verbatim>\<open>resource\<close> with a \<^verbatim>\<open>resourceType\<close> field equal to \<open>t\<close>.
\<close>

fun has_resource_type :: "string \<Rightarrow> json \<Rightarrow> bool" where
  "has_resource_type t (JObj kvs) =
     (case map_of kvs ''resource'' of
        Some (JObj r) \<Rightarrow> map_of r ''resourceType'' = Some (JStr t)
      | _ \<Rightarrow> False)"
| "has_resource_type t _ = False"

text \<open>The \<^verbatim>\<open>entry\<close> items of the document a file holds (none when there is no such list).\<close>

fun entries_of :: "bundle_file \<Rightarrow> json list" where
  "entries_of (Document (JObj kvs)) =
     (case map_of kvs ''entry'' of Some (JArr es) \<Rightarrow> es | _ \<Rightarrow> [])"
| "entries_of _ = []"

definition spec_count :: "string \<Rightarrow> listing \<Rightarrow> int" where
  "spec_count t files =
     (\<Sum>p\<leftarrow>files. int (length (filter (has_resource_type t) (entries_of (snd p)))))"

text \<open>
  An entry the counting can read: a dict whose \<^verbatim>\<open>resource\<close> is a dict. The entries of a
  file that come before its first entry of another shape are the ones that get counted.
\<close>

fun well_formed_entry :: "json \<Rightarrow> bool" where
  "well_formed_entry (JObj kvs) =
     (case map_of kvs ''resource'' of Some (JObj r) \<Rightarrow> True | _ \<Rightarrow> False)"
| "well_formed_entry _ = False"

definition counted_entries :: "bundle_file \<Rightarrow> json list" where
  "counted_entries f = takeWhile well_formed_entry (entries_of f)"

definition counted :: "string \<Rightarrow> listing \<Rightarrow> int" where
  "counted t files =
     (\<Sum>p\<leftarrow>files. int (length (filter (has_resource_type t) (counted_entries (snd p)))))"

section \<open>Example data\<close>

definition example_uploader :: uploader where
  "example_uploader = FHIRUploader ''fhir.example.com'' ''id'' ''secret'' 10 (1 / 2)"

definition empty_world :: world where
  "empty_world = \<lparr>sent = [], console = []\<rparr>"

definition patient_entry :: json where
  "patient_entry = JObj [(''resource'', JObj [(''resourceType'', JStr ''Patient'')])]"

text \<open>A server that accepts every request, one that is unreachable, and one that answers
  200 with a body that is not JSON.\<close>

definition accepting_server :: server where
  "accepting_server h req =
     Inr \<lparr>status_code = 200, body_text = ''{\"resourceType\": \"Bundle\"}'',
          decoded = Some (JObj [(''resourceType'', JStr ''Bundle'')])\<rparr>"

definition unreachable_server :: server where
  "unreachable_server h req = Inl (RequestException ''connection refused'')"

definition html_server :: server where
  "html_server h req = Inr \<lparr>status_code = 200, body_text = ''<html>'', decoded = None\<rparr>"

definition rejecting_server :: server where
  "rejecting_server h req = Inr \<lparr>status_code = 400, body_text = ''bad request'', decoded = None\<rparr>"

text \<open>An environment without \<^verbatim>\<open>HTTP_CLIENT_SECRET\<close>, a complete one, a file system
  without the input directory, and one where every directory is empty.\<close>

definition partial_env :: "string \<rightharpoonup> string" where
  "partial_env = [''HTTP_HOSTNAME'' \<mapsto> ''fhir.example.com'', ''HTTP_CLIENT_ID'' \<mapsto> ''id'']"

definition full_env :: "string \<rightharpoonup> string" where
  "full_env = partial_env(''HTTP_CLIENT_SECRET'' \<mapsto> ''secret'')"

definition no_filesystem :: filesystem where
  "no_filesystem path = None"

definition empty_directory :: filesystem where
  "empty_directory path = Some []"

text \<open>
  The specification's scenario: a bundle with two Patient entries, an empty bundle and a
  file that is not JSON, listed out of order beside a file of another extension. And a
  directory whose only bundle has an entry that is no dict before a Patient entry.
\<close>

definition two_patients :: json where
  "two_patients =
     JObj [(''resourceType'', JStr ''Bundle''), (''entry'', JArr [patient_entry, patient_entry])]"

definition empty_bundle :: json where
  "empty_bundle = JObj [(''resourceType'', JStr ''Bundle'')]"

definition scenario_directory :: filesystem where
  "scenario_directory path =
     (if path = ''./processed_fhir''
      then Some [(''c.json'', Malformed), (''a.json'', Document two_patients),
                 (''notes.txt'', Unreadable), (''b.json'', Document empty_bundle)]
      else None)"

definition broken_entry_directory :: filesystem where
  "broken_entry_directory path =
     Some [(''a.json'', Document (JObj [(''entry'', JArr [JInt 5, patient_entry])]))]"

text \<open>The scenario's directory, listed in another order.\<close>

definition scenario_reordered :: filesystem where
  "scenario_reordered path =
     (if path = ''./processed_fhir''
      then Some [(''b.json'', Document empty_bundle), (''notes.txt'', Unreadable),
                 (''a.json'', Document two_patients), (''c.json'', Malformed)]
      else None)"

section \<open>The uploader catches what it meets\<close>

lemma upload_bundle_no_raise: "\<exists>j. fst (upload_bundle srv u bundle w) = Inr j"
  by (auto simp: upload_bundle_def try_except_def upload_bundle_body_def session_request_def
      split: prod.splits sum.splits option.splits if_splits)

lemma upload_bundle_file_no_raise: "\<exists>b. fst (upload_bundle_file srv u fp w) = Inr b"
  by (auto simp: upload_bundle_file_def try_except_def split: prod.splits sum.splits)

text \<open>
  C9: when the server answers an upload with status 200 or 201 and a body that is not
  valid JSON, \<^verbatim>\<open>response.json()\<close> raises inside the guarded block, the handler prints the
  error, and \<^verbatim>\<open>upload_bundle\<close> returns \<^verbatim>\<open>None\<close>: a failure, whatever the status said.
\<close>

theorem upload_bundle_undecodable_body:
  assumes "srv (sent w) (post_request u bundle) = Inr resp"
    and "status_code resp = 200 \<or> status_code resp = 201"
    and "decoded resp = None"
  shows "upload_bundle srv u bundle w =
           (Inr JNull,
            print [Lit ''  Upload error: '', ExnV JSONDecodeError]
              (w\<lparr>sent := sent w @ [post_request u bundle]\<rparr>))"
  using assms
  by (auto simp: upload_bundle_def try_except_def upload_bundle_body_def session_request_def)

theorem upload_bundle_undecodable_body_witness:
  "upload_bundle html_server example_uploader (JObj []) empty_world =
     (Inr JNull,
      print [Lit ''  Upload error: '', ExnV JSONDecodeError]
        (empty_world\<lparr>sent := sent empty_world @ [post_request example_uploader (JObj [])]\<rparr>))"
  using upload_bundle_undecodable_body [of html_server empty_world example_uploader "JObj []"
      "\<lparr>status_code = 200, body_text = ''<html>'', decoded = None\<rparr>"]
  by (simp add: html_server_def)

text \<open>
  C4, as the specification states it, fails: a response with status 200 whose body is not
  valid JSON makes \<^verbatim>\<open>upload_bundle\<close> return \<^verbatim>\<open>None\<close>, the failure value.
\<close>

theorem upload_bundle_success_status_counterexample:
  "html_server (sent empty_world) (post_request example_uploader (JObj [])) =
     Inr \<lparr>status_code = 200, body_text = ''<html>'', decoded = None\<rparr> \<and>
   fst (upload_bundle html_server example_uploader (JObj []) empty_world) = Inr JNull"
  by (simp add: html_server_def upload_bundle_def try_except_def upload_bundle_body_def
      session_request_def)

text \<open>
  C4, amended: \<^verbatim>\<open>upload_bundle\<close> never raises. It returns the parsed response body when
  the status is 200 or 201 and the body is valid JSON. In every other case (another
  status, a body that does not parse, the request raising) it returns \<^verbatim>\<open>None\<close>, which
  carries nothing; for another status it prints the status code and the first 500
  characters of the body, for an exception it prints the exception.
  \<^verbatim>\<open>upload_bundle_file\<close> never raises either, so the batch goes on.
\<close>

theorem upload_bundle_outcomes:
  "(\<exists>j. fst (upload_bundle srv u bundle w) = Inr j) \<and>
   (\<forall>resp j. srv (sent w) (post_request u bundle) = Inr resp \<and>
        status_code resp \<in> {200, 201} \<and> decoded resp = Some j \<longrightarrow>
        upload_bundle srv u bundle w = (Inr j, w\<lparr>sent := sent w @ [post_request u bundle]\<rparr>)) \<and>
   (\<forall>resp. srv (sent w) (post_request u bundle) = Inr resp \<and>
        status_code resp \<in> {200, 201} \<and> decoded resp = None \<longrightarrow>
        fst (upload_bundle srv u bundle w) = Inr JNull) \<and>
   (\<forall>resp. srv (sent w) (post_request u bundle) = Inr resp \<and>
        status_code resp \<notin> {200, 201} \<longrightarrow>
        upload_bundle srv u bundle w =
          (Inr JNull,
           print [Lit ''  Response: '', Lit (take 500 (body_text resp))]
             (print [Lit ''  Upload failed: '', IntV (status_code resp)]
               (w\<lparr>sent := sent w @ [post_request u bundle]\<rparr>)))) \<and>
   (\<forall>e. srv (sent w) (post_request u bundle) = Inl e \<longrightarrow>
        upload_bundle srv u bundle w =
          (Inr JNull,
           print [Lit ''  Upload error: '', ExnV e]
             (w\<lparr>sent := sent w @ [post_request u bundle]\<rparr>))) \<and>
   (\<exists>b. fst (upload_bundle_file srv u file_path w) = Inr b)"
  using upload_bundle_no_raise [of srv u "bundle" w] upload_bundle_file_no_raise [of srv u file_path w]
  by (auto simp: upload_bundle_def try_except_def upload_bundle_body_def session_request_def)

theorem upload_bundle_outcomes_witness:
  "upload_bundle accepting_server example_uploader (JObj []) empty_world =
     (Inr (JObj [(''resourceType'', JStr ''Bundle'')]),
      empty_world\<lparr>sent := [post_request example_uploader (JObj [])]\<rparr>) \<and>
   fst (upload_bundle html_server example_uploader (JObj []) empty_world) = Inr JNull \<and>
   upload_bundle rejecting_server example_uploader (JObj []) empty_world =
     (Inr JNull,
      print [Lit ''  Response: '', Lit ''bad request'']
        (print [Lit ''  Upload failed: '', IntV 400]
          (empty_world\<lparr>sent := [post_request example_uploader (JObj [])]\<rparr>))) \<and>
   upload_bundle unreachable_server example_uploader (JObj []) empty_world =
     (Inr JNull,
      print [Lit ''  Upload error: '', ExnV (RequestException ''connection refused'')]
        (empty_world\<lparr>sent := [post_request example_uploader (JObj [])]\<rparr>))"
  using upload_bundle_outcomes [of accepting_server example_uploader "JObj []" empty_world]
    upload_bundle_outcomes [of html_server example_uploader "JObj []" empty_world]
    upload_bundle_outcomes [of rejecting_server example_uploader "JObj []" empty_world]
    upload_bundle_outcomes [of unreachable_server example_uploader "JObj []" empty_world]
  by (simp add: accepting_server_def html_server_def rejecting_server_def unreachable_server_def
      empty_world_def)

text \<open>
  C5: \<^verbatim>\<open>test_connection\<close> and \<^verbatim>\<open>search_patients\<close> never raise. Whatever the server does,
  each returns a value; when the guarded block raises, in particular when the request
  itself raises because the server cannot be reached, the value is \<^verbatim>\<open>False\<close> for
  \<^verbatim>\<open>test_connection\<close> and \<^verbatim>\<open>None\<close> for \<^verbatim>\<open>search_patients\<close>.
\<close>

theorem connection_checks_never_raise:
  "(\<exists>b. fst (test_connection srv u w) = Inr b) \<and>
   (\<exists>j. fst (search_patients srv u ps w) = Inr j) \<and>
   ((\<exists>e. fst (test_connection_body srv u w) = Inl e) \<longrightarrow>
      fst (test_connection srv u w) = Inr False) \<and>
   ((\<exists>e. fst (search_patients_body srv u ps w) = Inl e) \<longrightarrow>
      fst (search_patients srv u ps w) = Inr JNull) \<and>
   ((\<exists>e. srv (sent w) (metadata_request u) = Inl e) \<longrightarrow>
      fst (test_connection srv u w) = Inr False) \<and>
   ((\<exists>e. srv (sent w) (search_request u ps) = Inl e) \<longrightarrow>
      fst (search_patients srv u ps w) = Inr JNull)"
  by (auto simp: test_connection_def search_patients_def try_except_def
      test_connection_body_def search_patients_body_def session_request_def
      split: prod.splits sum.splits)

theorem connection_checks_never_raise_witness:
  "unreachable_server (sent empty_world) (metadata_request example_uploader) =
     Inl (RequestException ''connection refused'') \<and>
   fst (test_connection unreachable_server example_uploader empty_world) = Inr False \<and>
   fst (search_patients unreachable_server example_uploader JNull empty_world) = Inr JNull \<and>
   fst (test_connection_body html_server example_uploader empty_world) = Inl JSONDecodeError \<and>
   fst (test_connection html_server example_uploader empty_world) = Inr False"
  using connection_checks_never_raise [of unreachable_server example_uploader empty_world JNull]
    connection_checks_never_raise [of html_server example_uploader empty_world JNull]
  by (simp add: unreachable_server_def html_server_def test_connection_body_def
      session_request_def print_def)

section \<open>main and its configuration\<close>

lemma sent_print [simp]: "sent (print l w) = sent w"
  by (simp add: print_def)

lemma console_print [simp]: "console (print l w) = console w @ [l]"
  by (simp add: print_def)

lemma sent_missing_env_message [simp]: "sent (missing_env_message w) = sent w"
  by (simp add: missing_env_message_def)

text \<open>
  C6: if one of \<^verbatim>\<open>HTTP_HOSTNAME\<close>, \<^verbatim>\<open>HTTP_CLIENT_ID\<close>, \<^verbatim>\<open>HTTP_CLIENT_SECRET\<close> is missing,
  \<^verbatim>\<open>main\<close> prints the message about the environment and returns; the session has sent
  nothing: no connection test, no upload, no search.
\<close>

theorem main_missing_env_no_http:
  assumes "env ''HTTP_HOSTNAME'' = None \<or> env ''HTTP_CLIENT_ID'' = None \<or>
           env ''HTTP_CLIENT_SECRET'' = None"
  shows "main srv fs env w = (Inr (), missing_env_message w) \<and>
         sent (snd (main srv fs env w)) = sent w"
  using assms by (auto simp: main_def)

theorem main_missing_env_no_http_witness:
  "partial_env ''HTTP_CLIENT_SECRET'' = None \<and>
   main accepting_server empty_directory partial_env empty_world =
     (Inr (), missing_env_message empty_world) \<and>
   sent (snd (main accepting_server empty_directory partial_env empty_world)) = []"
  using main_missing_env_no_http [of partial_env accepting_server empty_directory empty_world]
  by (simp add: partial_env_def empty_world_def)

text \<open>With a complete environment the connection test is sent.\<close>

lemma main_configured_sends:
  "sent (snd (main accepting_server no_filesystem full_env empty_world)) =
     [metadata_request example_uploader]"
  by (simp add: main_def full_env_def partial_env_def no_filesystem_def empty_world_def
      test_connection_def try_except_def test_connection_body_def session_request_def
      accepting_server_def example_uploader_def cannot_connect_message_def
      no_directory_message_def Let_def)

text \<open>
  C10: a required variable set to the empty string is treated exactly like a missing
  one: \<^verbatim>\<open>main\<close> does the same as without the variable, which is to print the message
  and return with nothing sent.
\<close>

theorem main_empty_env_like_missing:
  assumes "k \<in> {''HTTP_HOSTNAME'', ''HTTP_CLIENT_ID'', ''HTTP_CLIENT_SECRET''}"
  shows "main srv fs (env(k \<mapsto> [])) w = main srv fs (env(k := None)) w \<and>
         main srv fs (env(k \<mapsto> [])) w = (Inr (), missing_env_message w) \<and>
         sent (snd (main srv fs (env(k \<mapsto> [])) w)) = sent w"
  using assms by (auto simp: main_def)

theorem main_empty_env_like_missing_witness:
  "main accepting_server no_filesystem (full_env(''HTTP_CLIENT_ID'' \<mapsto> [])) empty_world =
     main accepting_server no_filesystem (full_env(''HTTP_CLIENT_ID'' := None)) empty_world \<and>
   main accepting_server no_filesystem (full_env(''HTTP_CLIENT_ID'' \<mapsto> [])) empty_world =
     (Inr (), missing_env_message empty_world) \<and>
   sent (snd (main accepting_server no_filesystem (full_env(''HTTP_CLIENT_ID'' \<mapsto> []))
                empty_world)) = sent empty_world"
  by (rule main_empty_env_like_missing) simp

section \<open>The empty directory\<close>

lemma upload_directory_no_files:
  assumes "glob_json fs directory = []"
  shows "fst (upload_directory srv fs u directory w) = Inl ZeroDivisionError"
  using assms
  by (simp add: upload_directory_def bundle_files_def final_summary_def Let_def)

lemma main_empty_directory_raises:
  "fst (main accepting_server empty_directory full_env empty_world) = Inl ZeroDivisionError"
proof -
  let ?u = "FHIRUploader ''fhir.example.com'' ''id'' ''secret'' 10 (1 / 2)"
  have g: "glob_json empty_directory ''./processed_fhir'' = []"
    by (simp add: glob_json_def empty_directory_def)
  have "fst (test_connection accepting_server ?u
          (print [Lit ''Testing FHIR server connection...''] empty_world)) = Inr True"
    by (simp add: test_connection_def try_except_def test_connection_body_def
        session_request_def accepting_server_def Let_def)
  then obtain w1 where t: "test_connection accepting_server ?u
      (print [Lit ''Testing FHIR server connection...''] empty_world) = (Inr True, w1)"
    by (metis prod.collapse)
  have "fst (upload_directory accepting_server empty_directory ?u ''./processed_fhir'' w1) =
          Inl ZeroDivisionError"
    using g by (rule upload_directory_no_files)
  then obtain w2 where d: "upload_directory accepting_server empty_directory ?u
      ''./processed_fhir'' w1 = (Inl ZeroDivisionError, w2)"
    by (metis prod.collapse)
  show ?thesis
    using t d
    by (simp add: main_def full_env_def partial_env_def empty_directory_def Let_def)
qed

text \<open>
  C3 asks that a directory without \<^verbatim>\<open>*.json\<close> files gives statistics with a total of 0
  and no division by zero. The code divides by the total in the final summary: the run
  raises \<^verbatim>\<open>ZeroDivisionError\<close> and returns no statistics.
\<close>

theorem upload_directory_no_files_raises:
  assumes "glob_json fs directory = []"
  shows "fst (upload_directory srv fs u directory w) = Inl ZeroDivisionError"
  using assms
  by (simp add: upload_directory_def bundle_files_def final_summary_def Let_def)

theorem upload_directory_no_files_raises_witness:
  "glob_json empty_directory ''./processed_fhir'' = [] \<and>
   fst (upload_directory accepting_server empty_directory example_uploader ''./processed_fhir''
          empty_world) = Inl ZeroDivisionError"
  using upload_directory_no_files_raises [of empty_directory "''./processed_fhir''"
      accepting_server example_uploader empty_world]
  by (simp add: glob_json_def empty_directory_def)

section \<open>Counting resources\<close>

lemma resource_type_of_well_formed:
  "well_formed_entry e \<longleftrightarrow> (\<exists>rt. resource_type_of e = Inr rt)"
proof (cases e)
  case (JObj kvs)
  show ?thesis
  proof (cases "map_of kvs ''resource''")
    case None
    with JObj show ?thesis by (simp add: resource_type_of_def)
  next
    case (Some r)
    with JObj show ?thesis by (cases r) (simp_all add: resource_type_of_def)
  qed
qed (simp_all add: resource_type_of_def)

lemma resource_type_of_has_type:
  assumes "resource_type_of e = Inr rt"
  shows "rt = JStr t \<longleftrightarrow> has_resource_type t e"
proof (cases e)
  case (JObj kvs)
  show ?thesis
  proof (cases "map_of kvs ''resource''")
    case None
    with JObj assms show ?thesis by (simp add: resource_type_of_def)
  next
    case (Some r)
    with JObj assms show ?thesis
      by (cases r) (auto simp: resource_type_of_def split: option.splits)
  qed
qed (use assms in \<open>simp_all add: resource_type_of_def\<close>)

lemma count_type_outcome [simp]:
  "total_stat (count_type rt st) = total_stat st"
  "successful (count_type rt st) = successful st"
  "failed (count_type rt st) = failed st"
  by (simp_all add: count_type_def)

lemma count_type_counters:
  "patients (count_type rt st) = patients st + (if rt = JStr ''Patient'' then 1 else 0)"
  "observations (count_type rt st) = observations st + (if rt = JStr ''Observation'' then 1 else 0)"
  "medications (count_type rt st) =
     medications st + (if rt = JStr ''MedicationStatement'' then 1 else 0)"
  by (simp_all add: count_type_def)

lemma count_entries_outcome [simp]:
  "total_stat (snd (count_entries es st)) = total_stat st"
  "successful (snd (count_entries es st)) = successful st"
  "failed (snd (count_entries es st)) = failed st"
  by (induction es arbitrary: st; simp split: sum.splits)+

lemma count_entries_counters:
  "patients (snd (count_entries es st)) =
     patients st + int (length (filter (has_resource_type ''Patient'') (takeWhile well_formed_entry es)))"
  "observations (snd (count_entries es st)) =
     observations st + int (length (filter (has_resource_type ''Observation'') (takeWhile well_formed_entry es)))"
  "medications (snd (count_entries es st)) =
     medications st +
     int (length (filter (has_resource_type ''MedicationStatement'') (takeWhile well_formed_entry es)))"
proof (induction es arbitrary: st)
  case Nil
  { case 1 show ?case by simp }
  { case 2 show ?case by simp }
  { case 3 show ?case by simp }
next
  case (Cons e es)
  { case 1 show ?case
      using Cons.IH(1) resource_type_of_has_type [of e _ "''Patient''"]
      by (auto simp: resource_type_of_well_formed count_type_counters split: sum.splits) }
  { case 2 show ?case
      using Cons.IH(2) resource_type_of_has_type [of e _ "''Observation''"]
      by (auto simp: resource_type_of_well_formed count_type_counters split: sum.splits) }
  { case 3 show ?case
      using Cons.IH(3) resource_type_of_has_type [of e _ "''MedicationStatement''"]
      by (auto simp: resource_type_of_well_formed count_type_counters split: sum.splits) }
qed

lemma takeWhile_strings [simp]:
  "takeWhile well_formed_entry (map (\<lambda>x. JStr (g x)) xs) = []"
  by (cases xs) simp_all

lemma count_resources_outcome [simp]:
  "total_stat (count_resources f st) = total_stat st"
  "successful (count_resources f st) = successful st"
  "failed (count_resources f st) = failed st"
  by (simp_all add: count_resources_def count_resources_body_def split: sum.splits)

lemma count_resources_body_entries:
  "\<exists>es. snd (count_resources_body f st) = snd (count_entries es st) \<and>
        takeWhile well_formed_entry es = counted_entries f"
proof (cases f)
  case (Document j)
  show ?thesis
  proof (cases j)
    case (JObj kvs)
    show ?thesis
    proof (cases "map_of kvs ''entry''")
      case None
      with Document JObj show ?thesis
        by (intro exI [of _ "[]"]) (simp add: count_resources_body_def counted_entries_def)
    next
      case (Some v)
      show ?thesis
      proof (cases v)
        case (JArr es)
        with Document JObj Some show ?thesis
          by (intro exI [of _ es]) (simp add: count_resources_body_def counted_entries_def)
      next
        case (JObj kvs')
        with Document \<open>j = JObj kvs\<close> Some show ?thesis
          by (intro exI [of _ "map (\<lambda>kv. JStr (fst kv)) kvs'"])
            (simp add: count_resources_body_def counted_entries_def)
      next
        case (JStr s)
        with Document JObj Some show ?thesis
          by (intro exI [of _ "map (\<lambda>c. JStr [c]) s"])
            (simp add: count_resources_body_def counted_entries_def)
      qed (use Document JObj Some in
          \<open>(intro exI [of _ "[]"], simp add: count_resources_body_def counted_entries_def)+\<close>)
    qed
  qed (use Document in
      \<open>(intro exI [of _ "[]"], simp add: count_resources_body_def counted_entries_def)+\<close>)
qed (intro exI [of _ "[]"], simp add: count_resources_body_def counted_entries_def)+

lemma count_resources_counters:
  "patients (count_resources f st) =
     patients st + int (length (filter (has_resource_type ''Patient'') (counted_entries f)))"
  "observations (count_resources f st) =
     observations st + int (length (filter (has_resource_type ''Observation'') (counted_entries f)))"
  "medications (count_resources f st) =
     medications st +
     int (length (filter (has_resource_type ''MedicationStatement'') (counted_entries f)))"
  using count_resources_body_entries [of f st]
  by (auto simp: count_resources_def count_entries_counters)

lemma counted_Cons:
  "counted t (p # files) =
     int (length (filter (has_resource_type t) (counted_entries (snd p)))) + counted t files"
  by (simp add: counted_def)

lemma counted_all_well_formed:
  assumes "\<forall>p \<in> set files. \<forall>e \<in> set (entries_of (snd p)). well_formed_entry e"
  shows "counted t files = spec_count t files"
proof -
  have "counted_entries (snd p) = entries_of (snd p)" if "p \<in> set files" for p
    using assms that by (simp add: counted_entries_def)
  then show ?thesis
    by (simp add: counted_def spec_count_def cong: map_cong)
qed

section \<open>The batch\<close>

text \<open>What a completed loop has done to the statistics.\<close>

lemma upload_loop_stats:
  assumes "upload_loop srv u total_files idx files st w = (Inr st', w')"
  shows "total_stat st' = total_stat st \<and>
         successful st' + failed st' = successful st + failed st + int (length files) \<and>
         patients st' = patients st + counted ''Patient'' files \<and>
         observations st' = observations st + counted ''Observation'' files \<and>
         medications st' = medications st + counted ''MedicationStatement'' files"
  using assms
proof (induction files arbitrary: idx st w)
  case Nil
  then show ?case by (simp add: counted_def)
next
  case (Cons file_path rest)
  let ?w1 = "print [Lit ''['', IntV idx, Lit ''/'', IntV total_files, Lit ''] Uploading '',
                    Lit (fst file_path), Lit ''...''] w"
  let ?st1 = "count_resources (snd file_path) st"
  obtain success w2 where up: "upload_bundle_file srv u file_path ?w1 = (Inr success, w2)"
    using upload_bundle_file_no_raise [of srv u file_path ?w1] by (metis prod.collapse)
  let ?st2 = "if success then ?st1\<lparr>successful := successful ?st1 + 1\<rparr>
              else ?st1\<lparr>failed := failed ?st1 + 1\<rparr>"
  from Cons.prems up obtain w4 where
    rec: "upload_loop srv u total_files (idx + 1) rest ?st2 w4 = (Inr st', w')"
    by (auto simp: Let_def split: if_splits)
  from Cons.IH [OF rec] show ?case
    by (auto simp: counted_Cons count_resources_counters)
qed

text \<open>With a batch size other than zero and a delay that is not negative the loop completes.\<close>

lemma upload_loop_completes:
  assumes "batch_size u \<noteq> 0" and "0 \<le> delay_seconds u"
  shows "\<exists>st' w'. upload_loop srv u total_files idx files st w = (Inr st', w')"
proof (induction files arbitrary: idx st w)
  case Nil
  show ?case by simp
next
  case (Cons file_path rest)
  let ?w1 = "print [Lit ''['', IntV idx, Lit ''/'', IntV total_files, Lit ''] Uploading '',
                    Lit (fst file_path), Lit ''...''] w"
  obtain success w2 where up: "upload_bundle_file srv u file_path ?w1 = (Inr success, w2)"
    using upload_bundle_file_no_raise [of srv u file_path ?w1] by (metis prod.collapse)
  show ?case
    using assms up Cons.IH by (simp add: Let_def)
qed

lemma final_summary_completes:
  "total_stat st \<noteq> 0 \<Longrightarrow> fst (final_summary st w) = Inr ()"
  by (simp add: final_summary_def Let_def)

lemma final_summary_raises:
  "fst (final_summary st w) = Inl e \<Longrightarrow> total_stat st = 0"
  by (simp add: final_summary_def Let_def split: if_splits)

text \<open>The specification's scenario with three bundle files, on a server that accepts.\<close>

lemma scenario_files:
  "bundle_files scenario_directory ''./processed_fhir'' =
     [(''a.json'', Document two_patients), (''b.json'', Document empty_bundle), (''c.json'', Malformed)]"
  by (simp add: bundle_files_def glob_json_def scenario_directory_def matches_json_def)

lemma scenario_three_files:
  "fst (upload_directory accepting_server scenario_directory example_uploader ''./processed_fhir''
       empty_world) =
     Inr \<lparr>total_stat = 3, successful = 2, failed = 1,
          patients = 2, observations = 0, medications = 0\<rparr>"
  by code_simp

text \<open>
  C1: the statistics a batch run returns satisfy \<open>total = successful + failed\<close>, and
  the total is the number of \<^verbatim>\<open>*.json\<close> files the scan found. A run returns statistics
  whenever the scan found a file, the batch size is not zero and the delay is not
  negative.
\<close>

theorem upload_directory_totals:
  "(\<forall>st. fst (upload_directory srv fs u directory w) = Inr st \<longrightarrow>
      total_stat st = successful st + failed st \<and>
      total_stat st = int (length (glob_json fs directory))) \<and>
   (glob_json fs directory \<noteq> [] \<and> batch_size u \<noteq> 0 \<and> 0 \<le> delay_seconds u \<longrightarrow>
      (\<exists>st. fst (upload_directory srv fs u directory w) = Inr st))"
proof (intro conjI allI impI)
  fix st
  assume r: "fst (upload_directory srv fs u directory w) = Inr st"
  let ?files = "bundle_files fs directory"
  let ?n = "int (length ?files)"
  let ?w2 = "print [Lit rule_line] (print [Lit (CHR 0x0A # ''Uploading ''), IntV ?n,
                      Lit '' bundles from '', Lit directory] w)"
  let ?st0 = "\<lparr>total_stat = ?n, successful = 0, failed = 0,
                patients = 0, observations = 0, medications = 0\<rparr>"
  from r obtain w3 where
    loop: "upload_loop srv u ?n 1 ?files ?st0 ?w2 = (Inr st, w3)"
    by (auto simp: upload_directory_def Let_def split: prod.splits sum.splits)
  from upload_loop_stats [OF loop]
  show "total_stat st = successful st + failed st"
    and "total_stat st = int (length (glob_json fs directory))"
    by (simp_all add: bundle_files_def)
next
  assume h: "glob_json fs directory \<noteq> [] \<and> batch_size u \<noteq> 0 \<and> 0 \<le> delay_seconds u"
  let ?files = "bundle_files fs directory"
  let ?n = "int (length ?files)"
  let ?w2 = "print [Lit rule_line] (print [Lit (CHR 0x0A # ''Uploading ''), IntV ?n,
                      Lit '' bundles from '', Lit directory] w)"
  let ?st0 = "\<lparr>total_stat = ?n, successful = 0, failed = 0,
                patients = 0, observations = 0, medications = 0\<rparr>"
  from h upload_loop_completes [of u srv ?n 1 ?files ?st0 ?w2] obtain st w3 where
    loop: "upload_loop srv u ?n 1 ?files ?st0 ?w2 = (Inr st, w3)"
    by blast
  from upload_loop_stats [OF loop] h have "total_stat st \<noteq> 0"
    by (simp add: bundle_files_def)
  from final_summary_completes [OF this, of w3] obtain w4 where
    "final_summary st w3 = (Inr (), w4)"
    by (metis prod.collapse)
  with loop show "\<exists>st. fst (upload_directory srv fs u directory w) = Inr st"
    by (simp add: upload_directory_def Let_def)
qed

theorem upload_directory_totals_witness:
  "fst (upload_directory accepting_server scenario_directory example_uploader ''./processed_fhir''
       empty_world) =
     Inr \<lparr>total_stat = 3, successful = 2, failed = 1,
          patients = 2, observations = 0, medications = 0\<rparr> \<and>
   (3::int) = 2 + 1 \<and>
   (3::int) = int (length (glob_json scenario_directory ''./processed_fhir''))"
  using upload_directory_totals [of accepting_server scenario_directory example_uploader
      "''./processed_fhir''" empty_world] scenario_three_files
  by simp

text \<open>
  C2, as the specification states it, fails: in a bundle whose entries are the number 5
  and then a Patient, the first entry raises, the bare \<^verbatim>\<open>except\<close> ends the counting of
  the file, and the Patient after it is not counted.
\<close>

theorem counters_all_entries_counterexample:
  "fst (upload_directory accepting_server broken_entry_directory example_uploader
         ''./processed_fhir'' empty_world) =
     Inr \<lparr>total_stat = 1, successful = 1, failed = 0,
          patients = 0, observations = 0, medications = 0\<rparr> \<and>
   spec_count ''Patient'' (bundle_files broken_entry_directory ''./processed_fhir'') = 1"
  by code_simp

text \<open>
  C2, amended: in the statistics a batch run returns, each counter is the number of
  entries of its resource type among the entries of each file that come before the
  file's first malformed entry, summed over the files, whatever the server answers to
  the uploads. When no file has a malformed entry, that is the number of all entries of
  the type.
\<close>

theorem upload_directory_counters:
  assumes "fst (upload_directory srv fs u directory w) = Inr st"
  shows "patients st = counted ''Patient'' (bundle_files fs directory) \<and>
         observations st = counted ''Observation'' (bundle_files fs directory) \<and>
         medications st = counted ''MedicationStatement'' (bundle_files fs directory) \<and>
         ((\<forall>p \<in> set (bundle_files fs directory).
             \<forall>e \<in> set (entries_of (snd p)). well_formed_entry e) \<longrightarrow>
          patients st = spec_count ''Patient'' (bundle_files fs directory) \<and>
          observations st = spec_count ''Observation'' (bundle_files fs directory) \<and>
          medications st = spec_count ''MedicationStatement'' (bundle_files fs directory))"
proof -
  let ?files = "bundle_files fs directory"
  let ?n = "int (length ?files)"
  let ?w2 = "print [Lit rule_line] (print [Lit (CHR 0x0A # ''Uploading ''), IntV ?n,
                      Lit '' bundles from '', Lit directory] w)"
  let ?st0 = "\<lparr>total_stat = ?n, successful = 0, failed = 0,
                patients = 0, observations = 0, medications = 0\<rparr>"
  from assms obtain w3 where
    loop: "upload_loop srv u ?n 1 ?files ?st0 ?w2 = (Inr st, w3)"
    by (auto simp: upload_directory_def Let_def split: prod.splits sum.splits)
  from upload_loop_stats [OF loop]
  have c: "patients st = counted ''Patient'' ?files"
    "observations st = counted ''Observation'' ?files"
    "medications st = counted ''MedicationStatement'' ?files"
    by simp_all
  with counted_all_well_formed [of ?files] show ?thesis
    by simp
qed

theorem upload_directory_counters_witness:
  "fst (upload_directory accepting_server scenario_directory example_uploader ''./processed_fhir''
       empty_world) =
     Inr \<lparr>total_stat = 3, successful = 2, failed = 1,
          patients = 2, observations = 0, medications = 0\<rparr> \<and>
   counted ''Patient'' (bundle_files scenario_directory ''./processed_fhir'') = 2 \<and>
   spec_count ''Patient'' (bundle_files scenario_directory ''./processed_fhir'') = 2 \<and>
   fst (upload_directory rejecting_server broken_entry_directory example_uploader
         ''./processed_fhir'' empty_world) =
     Inr \<lparr>total_stat = 1, successful = 0, failed = 1,
          patients = 0, observations = 0, medications = 0\<rparr> \<and>
   counted ''Patient'' (bundle_files broken_entry_directory ''./processed_fhir'') = 0"
proof -
  have a: "fst (upload_directory accepting_server scenario_directory example_uploader
      ''./processed_fhir'' empty_world) =
     Inr \<lparr>total_stat = 3, successful = 2, failed = 1,
          patients = 2, observations = 0, medications = 0\<rparr>"
    by (rule scenario_three_files)
  have wf: "\<forall>p \<in> set (bundle_files scenario_directory ''./processed_fhir'').
             \<forall>e \<in> set (entries_of (snd p)). well_formed_entry e"
    by (simp add: scenario_files two_patients_def empty_bundle_def patient_entry_def)
  have b: "fst (upload_directory rejecting_server broken_entry_directory example_uploader
         ''./processed_fhir'' empty_world) =
     Inr \<lparr>total_stat = 1, successful = 0, failed = 1,
          patients = 0, observations = 0, medications = 0\<rparr>"
    by code_simp
  from upload_directory_counters [OF a] wf upload_directory_counters [OF b] a b
  show ?thesis by simp
qed



section \<open>Scanning and the order of processing\<close>

lemma drop_suffix: "drop (length xs - n) xs = s \<Longrightarrow> xs = take (length xs - n) xs @ s"
  by (metis append_take_drop_id)

lemma matches_json_iff: "matches_json name \<longleftrightarrow> (\<exists>stem. name = stem @ ''.json'')"
proof
  assume "matches_json name"
  then have "drop (length name - 5) name = ''.json''"
    by (simp only: matches_json_def)
  then have "name = take (length name - 5) name @ ''.json''"
    by (rule drop_suffix)
  then show "\<exists>stem. name = stem @ ''.json''" by blast
next
  assume "\<exists>stem. name = stem @ ''.json''"
  then obtain stem where "name = stem @ ''.json''" by blast
  then show "matches_json name"
    by (simp add: matches_json_def)
qed

lemma uploading_name_simps [simp]:
  "uploading_name [Lit ''['', IntV idx, Lit ''/'', IntV total_files, Lit ''] Uploading '',
                   Lit name, Lit ''...''] = Some name"
  "length line \<noteq> 7 \<Longrightarrow> uploading_name line = None"
  by (simp_all add: uploading_name_def)

lemma processed_print:
  "processed (print l w) =
     processed w @ (case uploading_name l of None \<Rightarrow> [] | Some n \<Rightarrow> [n])"
  by (simp add: processed_def print_def List.map_filter_def split: option.splits)

lemma processed_sent [simp]: "processed (w\<lparr>sent := x\<rparr>) = processed w"
  by (simp add: processed_def)

lemma processed_upload_bundle [simp]:
  "processed (snd (upload_bundle srv u doc w)) = processed w"
  by (auto simp: upload_bundle_def try_except_def upload_bundle_body_def session_request_def
      processed_print split: prod.splits sum.splits option.splits if_splits)

lemma processed_upload_bundle_file [simp]:
  "processed (snd (upload_bundle_file srv u fp w)) = processed w"
proof (cases "json_load (snd fp)")
  case (Inl e)
  then show ?thesis
    by (simp add: upload_bundle_file_def try_except_def upload_bundle_file_body_def
        processed_print)
next
  case (Inr doc)
  obtain j w1 where ub: "upload_bundle srv u doc w = (Inr j, w1)"
    using upload_bundle_no_raise [of srv u doc w] by (metis prod.collapse)
  from processed_upload_bundle [of srv u doc w] ub have "processed w1 = processed w"
    by simp
  with Inr ub show ?thesis
    by (simp add: upload_bundle_file_def try_except_def upload_bundle_file_body_def)
qed

lemma processed_upload_loop:
  assumes "batch_size u \<noteq> 0" and "0 \<le> delay_seconds u"
  shows "processed (snd (upload_loop srv u total_files idx files st w)) =
           processed w @ map fst files"
proof (induction files arbitrary: idx st w)
  case Nil
  show ?case by simp
next
  case (Cons file_path rest)
  let ?w1 = "print [Lit ''['', IntV idx, Lit ''/'', IntV total_files, Lit ''] Uploading '',
                    Lit (fst file_path), Lit ''...''] w"
  obtain success w2 where up: "upload_bundle_file srv u file_path ?w1 = (Inr success, w2)"
    using upload_bundle_file_no_raise [of srv u file_path ?w1] by (metis prod.collapse)
  from processed_upload_bundle_file [of srv u file_path ?w1] up
  have "processed w2 = processed w @ [fst file_path]"
    by (simp add: processed_print)
  with assms up show ?case
    by (simp add: Let_def Cons.IH processed_print)
qed

lemma processed_final_summary [simp]:
  "processed (snd (final_summary st w)) = processed w"
  by (simp add: final_summary_def Let_def processed_print)

lemma processed_upload_directory:
  assumes "batch_size u \<noteq> 0" and "0 \<le> delay_seconds u"
  shows "processed (snd (upload_directory srv fs u directory w)) =
           processed w @ map fst (bundle_files fs directory)"
proof -
  let ?files = "bundle_files fs directory"
  let ?n = "int (length ?files)"
  let ?w2 = "print [Lit rule_line] (print [Lit (CHR 0x0A # ''Uploading ''), IntV ?n,
                      Lit '' bundles from '', Lit directory] w)"
  let ?st0 = "\<lparr>total_stat = ?n, successful = 0, failed = 0,
                patients = 0, observations = 0, medications = 0\<rparr>"
  obtain st w3 where loop: "upload_loop srv u ?n 1 ?files ?st0 ?w2 = (Inr st, w3)"
    using upload_loop_completes [OF assms, of srv ?n 1 ?files ?st0 ?w2] by blast
  from processed_upload_loop [OF assms, of srv ?n 1 ?files ?st0 ?w2] loop
  have p: "processed w3 = processed w @ map fst ?files"
    by (simp add: processed_print)
  obtain r w4 where fin: "final_summary st w3 = (r, w4)"
    by (cases "final_summary st w3")
  from processed_final_summary [of st w3] fin p
  have "processed w4 = processed w @ map fst ?files"
    by simp
  with loop fin show ?thesis
    by (cases r) (simp_all add: upload_directory_def Let_def)
qed

lemma filter_same_key:
  assumes "distinct (map f xs)" and "k \<in> set xs"
  shows "filter (\<lambda>x. f k = f x) xs = [k]"
  using assms
proof (induction xs)
  case Nil
  then show ?case by simp
next
  case (Cons x xs)
  show ?case
  proof (cases "k = x")
    case True
    with Cons.prems have "filter (\<lambda>y. f k = f y) xs = []"
      by (auto simp: filter_empty_conv)
    with True show ?thesis by simp
  next
    case False
    with Cons.prems have k: "k \<in> set xs" by simp
    from Cons.prems have "f x \<notin> f ` set xs" by simp
    with k have "f k \<noteq> f x" by (metis imageI)
    with k Cons show ?thesis by simp
  qed
qed

lemma sort_key_permuted:
  assumes "mset xs = mset ys" and "distinct (map f xs)"
  shows "sort_key f ys = sort_key f xs"
proof (rule properties_for_sort_key)
  show "mset (sort_key f xs) = mset ys"
    using assms(1) by simp
  show "sorted (map f (sort_key f xs))"
    by simp
  fix k
  assume k: "k \<in> set (sort_key f xs)"
  have "mset (map f ys) = mset (map f xs)"
    using assms(1) by (metis mset_map)
  with assms(2) have dy: "distinct (map f ys)"
    by (metis mset_eq_imp_distinct_iff)
  have "mset (map f (sort_key f xs)) = mset (map f xs)"
    by (metis mset_map mset_sort)
  with assms(2) have ds: "distinct (map f (sort_key f xs))"
    by (metis mset_eq_imp_distinct_iff)
  from k assms(1) have "k \<in> set ys"
    by (metis mset_eq_setD set_sort)
  with dy have "filter (\<lambda>x. f k = f x) ys = [k]"
    by (rule filter_same_key)
  moreover from ds k have "filter (\<lambda>x. f k = f x) (sort_key f xs) = [k]"
    by (rule filter_same_key)
  ultimately show "filter (\<lambda>x. f k = f x) (sort_key f xs) = filter (\<lambda>x. f k = f x) ys"
    by simp
qed

lemma bundle_files_permuted:
  assumes "fs directory = Some es" and "fs' directory = Some es'"
    and "mset es = mset es'" and "distinct (map fst es)"
  shows "bundle_files fs' directory = bundle_files fs directory"
proof -
  have "mset (glob_json fs directory) = mset (glob_json fs' directory)"
    using assms(1-3) by (simp add: glob_json_def)
  moreover have "distinct (map fst (glob_json fs directory))"
    using assms(1,4) by (simp add: glob_json_def distinct_map_filter)
  ultimately show ?thesis
    unfolding bundle_files_def by (rule sort_key_permuted)
qed

lemma upload_directory_files:
  "bundle_files fs' directory = bundle_files fs directory \<Longrightarrow>
   upload_directory srv fs' u directory w = upload_directory srv fs u directory w"
  by (simp add: upload_directory_def)

lemma sent_upload_bundle:
  "sent (snd (upload_bundle srv u doc w)) = sent w @ [post_request u doc]"
  by (auto simp: upload_bundle_def try_except_def upload_bundle_body_def session_request_def
      split: prod.splits sum.splits option.splits if_splits)

lemma sent_upload_bundle_file:
  "sent (snd (upload_bundle_file srv u fp w)) =
     sent w @ map (post_request u) (loadable_documents [fp])"
proof (cases "snd fp")
  case (Document doc)
  obtain j w1 where ub: "upload_bundle srv u doc w = (Inr j, w1)"
    using upload_bundle_no_raise [of srv u doc w] by (metis prod.collapse)
  from sent_upload_bundle [of srv u doc w] ub have "sent w1 = sent w @ [post_request u doc]"
    by simp
  with Document ub show ?thesis
    by (simp add: upload_bundle_file_def try_except_def upload_bundle_file_body_def
        loadable_documents_def)
qed (simp_all add: upload_bundle_file_def try_except_def upload_bundle_file_body_def
    loadable_documents_def)

lemma loadable_documents_Cons:
  "loadable_documents (fp # rest) = loadable_documents [fp] @ loadable_documents rest"
  by (simp add: loadable_documents_def)

lemma sent_upload_loop:
  assumes "batch_size u \<noteq> 0" and "0 \<le> delay_seconds u"
  shows "sent (snd (upload_loop srv u total_files idx files st w)) =
           sent w @ map (post_request u) (loadable_documents files)"
proof (induction files arbitrary: idx st w)
  case Nil
  show ?case by (simp add: loadable_documents_def)
next
  case (Cons file_path rest)
  let ?w1 = "print [Lit ''['', IntV idx, Lit ''/'', IntV total_files, Lit ''] Uploading '',
                    Lit (fst file_path), Lit ''...''] w"
  obtain success w2 where up: "upload_bundle_file srv u file_path ?w1 = (Inr success, w2)"
    using upload_bundle_file_no_raise [of srv u file_path ?w1] by (metis prod.collapse)
  from sent_upload_bundle_file [of srv u file_path ?w1] up
  have "sent w2 = sent w @ map (post_request u) (loadable_documents [file_path])"
    by simp
  with assms up show ?case
    by (simp add: Let_def Cons.IH loadable_documents_Cons [of file_path rest])
qed

lemma sent_final_summary [simp]: "sent (snd (final_summary st w)) = sent w"
  by (simp add: final_summary_def Let_def)

lemma sent_upload_directory:
  assumes "batch_size u \<noteq> 0" and "0 \<le> delay_seconds u"
  shows "sent (snd (upload_directory srv fs u directory w)) =
           sent w @ map (post_request u) (loadable_documents (bundle_files fs directory))"
proof -
  let ?files = "bundle_files fs directory"
  let ?n = "int (length ?files)"
  let ?w2 = "print [Lit rule_line] (print [Lit (CHR 0x0A # ''Uploading ''), IntV ?n,
                      Lit '' bundles from '', Lit directory] w)"
  let ?st0 = "\<lparr>total_stat = ?n, successful = 0, failed = 0,
                patients = 0, observations = 0, medications = 0\<rparr>"
  obtain st w3 where loop: "upload_loop srv u ?n 1 ?files ?st0 ?w2 = (Inr st, w3)"
    using upload_loop_completes [OF assms, of srv ?n 1 ?files ?st0 ?w2] by blast
  from sent_upload_loop [OF assms, of srv ?n 1 ?files ?st0 ?w2] loop
  have p: "sent w3 = sent w @ map (post_request u) (loadable_documents ?files)"
    by simp
  obtain r w4 where fin: "final_summary st w3 = (r, w4)"
    by (cases "final_summary st w3")
  from sent_final_summary [of st w3] fin p
  have "sent w4 = sent w @ map (post_request u) (loadable_documents ?files)"
    by simp
  with loop fin show ?thesis
    by (cases r) (simp_all add: upload_directory_def Let_def)
qed

text \<open>
  C7: the files \<^verbatim>\<open>upload_directory\<close> works on are exactly the entries of the directory
  whose name ends in \<^verbatim>\<open>.json\<close>, sorted by name in lexicographic order. The loop
  processes them in that order: it announces every one of them, and the requests the
  run sends are the uploads of the documents of those files that load, one each, in
  the same order. Two listings of the same directory content (names in a directory are
  distinct) give the same list of files and the same run.
\<close>

theorem bundle_files_sorted_json:
  "mset (bundle_files fs directory) =
     filter_mset (\<lambda>p. \<exists>stem. fst p = stem @ ''.json'')
       (mset (case fs directory of None \<Rightarrow> [] | Some es \<Rightarrow> es)) \<and>
   sorted (map fst (bundle_files fs directory)) \<and>
   (batch_size u \<noteq> 0 \<and> 0 \<le> delay_seconds u \<longrightarrow>
      processed (snd (upload_directory srv fs u directory w)) =
        processed w @ map fst (bundle_files fs directory) \<and>
      sent (snd (upload_directory srv fs u directory w)) =
        sent w @ map (post_request u) (loadable_documents (bundle_files fs directory))) \<and>
   (\<forall>fs' es es'. fs directory = Some es \<and> fs' directory = Some es' \<and>
        mset es' = mset es \<and> distinct (map fst es) \<longrightarrow>
        bundle_files fs' directory = bundle_files fs directory \<and>
        upload_directory srv fs' u directory w = upload_directory srv fs u directory w)"
proof (intro conjI allI impI)
  show "mset (bundle_files fs directory) =
     filter_mset (\<lambda>p. \<exists>stem. fst p = stem @ ''.json'')
       (mset (case fs directory of None \<Rightarrow> [] | Some es \<Rightarrow> es))"
    by (simp add: bundle_files_def glob_json_def matches_json_iff split: option.splits)
  show "sorted (map fst (bundle_files fs directory))"
    by (simp add: bundle_files_def)
next
  assume "batch_size u \<noteq> 0 \<and> 0 \<le> delay_seconds u"
  then show "processed (snd (upload_directory srv fs u directory w)) =
        processed w @ map fst (bundle_files fs directory)"
    by (simp add: processed_upload_directory)
next
  assume "batch_size u \<noteq> 0 \<and> 0 \<le> delay_seconds u"
  then show "sent (snd (upload_directory srv fs u directory w)) =
        sent w @ map (post_request u) (loadable_documents (bundle_files fs directory))"
    by (simp add: sent_upload_directory)
next
  fix fs' es es'
  assume h: "fs directory = Some es \<and> fs' directory = Some es' \<and>
        mset es' = mset es \<and> distinct (map fst es)"
  then have "mset es = mset es'" by simp
  with h show b: "bundle_files fs' directory = bundle_files fs directory"
    by (intro bundle_files_permuted [of fs directory es fs' es']) simp_all
  then show "upload_directory srv fs' u directory w = upload_directory srv fs u directory w"
    by (rule upload_directory_files)
qed

theorem bundle_files_sorted_json_witness:
  "bundle_files scenario_directory ''./processed_fhir'' =
     [(''a.json'', Document two_patients), (''b.json'', Document empty_bundle),
      (''c.json'', Malformed)] \<and>
   processed (snd (upload_directory accepting_server scenario_directory example_uploader
                     ''./processed_fhir'' empty_world)) =
     [''a.json'', ''b.json'', ''c.json''] \<and>
   sent (snd (upload_directory accepting_server scenario_directory example_uploader
                ''./processed_fhir'' empty_world)) =
     [post_request example_uploader two_patients, post_request example_uploader empty_bundle] \<and>
   bundle_files scenario_reordered ''./processed_fhir'' =
     bundle_files scenario_directory ''./processed_fhir''"
proof -
  let ?es = "[(''c.json'', Malformed), (''a.json'', Document two_patients),
              (''notes.txt'', Unreadable), (''b.json'', Document empty_bundle)]"
  note t = bundle_files_sorted_json [of scenario_directory "''./processed_fhir''"
      example_uploader accepting_server empty_world]
  have c: "batch_size example_uploader \<noteq> 0 \<and> 0 \<le> delay_seconds example_uploader"
    by (simp add: example_uploader_def FHIRUploader_def)
  have p: "processed empty_world = []"
    by (simp add: processed_def empty_world_def List.map_filter_def)
  have s: "sent empty_world = []"
    by (simp add: empty_world_def)
  have l: "loadable_documents [(''a.json'', Document two_patients),
      (''b.json'', Document empty_bundle), (''c.json'', Malformed)] = [two_patients, empty_bundle]"
    by (simp add: loadable_documents_def)
  have d: "scenario_directory ''./processed_fhir'' = Some ?es"
    by (simp add: scenario_directory_def)
  have r: "scenario_reordered ''./processed_fhir'' = Some (rev ?es)"
    by (simp add: scenario_reordered_def)
  have m: "mset (rev ?es) = mset ?es"
    by (rule mset_rev)
  have k: "distinct (map fst ?es)"
    by simp
  have h: "scenario_directory ''./processed_fhir'' = Some ?es \<and>
        scenario_reordered ''./processed_fhir'' = Some (rev ?es) \<and>
        mset (rev ?es) = mset ?es \<and> distinct (map fst ?es)"
    using d r m k by (intro conjI)
  note t1 = t [THEN conjunct2, THEN conjunct2, THEN conjunct1, THEN mp, OF c]
  note t2 = t [THEN conjunct2, THEN conjunct2, THEN conjunct2,
      THEN spec [of _ scenario_reordered], rule_format, OF h,
      THEN conjunct1]
  from t1 [THEN conjunct1]
  have 1: "processed (snd (upload_directory accepting_server scenario_directory
        example_uploader ''./processed_fhir'' empty_world)) = [''a.json'', ''b.json'', ''c.json'']"
    by (simp only: p scenario_files list.map fst_conv append_Nil)
  from t1 [THEN conjunct2]
  have 2: "sent (snd (upload_directory accepting_server scenario_directory
        example_uploader ''./processed_fhir'' empty_world)) =
      [post_request example_uploader two_patients, post_request example_uploader empty_bundle]"
    by (simp only: s scenario_files l list.map append_Nil)
  from scenario_files 1 2 t2 show ?thesis
    by (intro conjI)
qed

end
